theory Spec2Isabelle
  imports Main "HOL-Library.AList" "HOL-Library.Sublist" "HOL-Library.Multiset"
begin

section \<open>Strings and paths\<close>

text \<open>
  A Python string is modelled as the \<^typ>\<open>string\<close> of the bytes of its UTF-8
  encoding. A Python string can hold a lone surrogate (a string literal of a source may
  hold the escape of one), which has no UTF-8 encoding: it stands here as the
  three bytes of the generalised encoding, \<open>0xED\<close>, a byte from \<open>0xA0\<close> to
  \<open>0xBF\<close>, and a third byte; no encoding of another character has such a pair. The
  path functions are the POSIX versions of \<^verbatim>\<open>os.path\<close>. Printing to the console is
  taken to succeed for every string.
\<close>

fun has_surrogate :: "string \<Rightarrow> bool" where
  "has_surrogate (a # b # cs) \<longleftrightarrow>
     (a = CHR 0xED \<and> (160 :: nat) \<le> of_char b \<and> (of_char b :: nat) \<le> 191)
     \<or> has_surrogate (b # cs)"
| "has_surrogate cs \<longleftrightarrow> False"

definition endswith :: "string \<Rightarrow> string \<Rightarrow> bool" where
  "endswith s suf \<longleftrightarrow> length suf \<le> length s \<and> drop (length s - length suf) s = suf"

text \<open>
  \<^verbatim>\<open>s.replace(old, new)\<close>: every non-overlapping occurrence of \<open>old\<close>, found from
  the left, is replaced. With an empty \<open>old\<close>, \<open>new\<close> is put before every character and
  at the end.
\<close>

fun str_replace :: "string \<Rightarrow> string \<Rightarrow> string \<Rightarrow> string" where
  "str_replace old new [] = (if old = [] then new else [])"
| "str_replace old new (c # cs) =
     (if old = [] then new @ c # str_replace old new cs
      else if prefix old (c # cs) then new @ str_replace old new (drop (length old - 1) cs)
      else c # str_replace old new cs)"

text \<open>\<^verbatim>\<open>os.path.basename(p)\<close>: what follows the last slash.\<close>

definition basename :: "string \<Rightarrow> string" where
  "basename p = rev (takeWhile (\<lambda>c. c \<noteq> CHR ''/'') (rev p))"

text \<open>
  \<^verbatim>\<open>os.path.dirname(p)\<close>: what precedes the last slash, with trailing slashes removed
  unless it consists of slashes only.
\<close>

definition dirname :: "string \<Rightarrow> string" where
  "dirname p =
     (let head = rev (dropWhile (\<lambda>c. c \<noteq> CHR ''/'') (rev p)) in
      if head \<noteq> [] \<and> head \<noteq> replicate (length head) (CHR ''/'')
      then rev (dropWhile (\<lambda>c. c = CHR ''/'') (rev head))
      else head)"

text \<open>\<^verbatim>\<open>os.path.join(a, b)\<close> for two components.\<close>

definition path_join :: "string \<Rightarrow> string \<Rightarrow> string" where
  "path_join a b =
     (if b \<noteq> [] \<and> hd b = CHR ''/'' then b
      else if a = [] \<or> last a = CHR ''/'' then a @ b
      else a @ ''/'' @ b)"

text \<open>
  The module name of \<^verbatim>\<open>process_file\<close>:
  \<^verbatim>\<open>os.path.basename(file_path).replace('.py', '')\<close>.
\<close>

definition module_name_of :: "string \<Rightarrow> string" where
  "module_name_of file_path = str_replace ''.py'' [] (basename file_path)"

section \<open>Syntax trees\<close>

text \<open>
  Annotation expressions: names, attribute access, subscription and the constant
  \<^verbatim>\<open>None\<close>, with the text \<^verbatim>\<open>ast.unparse\<close> renders for them.
\<close>

datatype expr =
    Name string
  | Attribute expr string
  | Subscript expr expr
  | NoneConstant

fun unparse :: "expr \<Rightarrow> string" where
  "unparse (Name i) = i"
| "unparse (Attribute v a) = unparse v @ ''.'' @ a"
| "unparse (Subscript v s) = unparse v @ ''['' @ unparse s @ '']''"
| "unparse NoneConstant = ''None''"

text \<open>
  How deep an expression is nested. \<^verbatim>\<open>ast.unparse\<close> descends an expression
  recursively, and raises \<^verbatim>\<open>RecursionError\<close> on one nested deeper than the interpreter's
  stack allows (a chain of some hundred attribute accesses, which \<^verbatim>\<open>ast.parse\<close> still
  accepts); a name or a constant is rendered without descending.
\<close>

fun expr_depth :: "expr \<Rightarrow> nat" where
  "expr_depth (Name i) = 0"
| "expr_depth (Attribute v a) = Suc (expr_depth v)"
| "expr_depth (Subscript v s) = Suc (max (expr_depth v) (expr_depth s))"
| "expr_depth NoneConstant = 0"

text \<open>\<^verbatim>\<open>ast.arg\<close>: a parameter's name and its optional annotation.\<close>

datatype arg = Arg string "expr option"

text \<open>
  A node of the tree \<^verbatim>\<open>ast.parse\<close> returns, as far as the program looks at it: its
  class, with the fields \<^verbatim>\<open>name\<close>, \<^verbatim>\<open>args.args\<close> and \<^verbatim>\<open>returns\<close> of a
  function definition, and its child nodes in the order of \<^verbatim>\<open>ast.iter_child_nodes\<close>.
  \<open>StrExpr s\<close> is an expression statement whose value is the string constant \<open>s\<close>;
  \<open>Other\<close> is any other statement or statement container (\<^verbatim>\<open>If\<close>, \<^verbatim>\<open>For\<close>,
  \<^verbatim>\<open>Try\<close>, \<^verbatim>\<open>ExceptHandler\<close>, \<^verbatim>\<open>Assign\<close>, ...). For a function or class
  definition the children are the statements of its body. Expression nodes (argument
  lists, decorators, annotations, lambdas) are left out of the children: none of them is
  a \<^verbatim>\<open>FunctionDef\<close> or contains one, and the order in which a breadth-first walk
  reaches the other nodes does not depend on them.
\<close>

datatype kind =
    Module
  | FunctionDef string "arg list" "expr option"
  | AsyncFunctionDef string "arg list" "expr option"
  | ClassDef string
  | StrExpr string
  | Other

datatype node = Node kind "node list"

fun node_kind :: "node \<Rightarrow> kind" where
  "node_kind (Node k cs) = k"

fun iter_child_nodes :: "node \<Rightarrow> node list" where
  "iter_child_nodes (Node k cs) = cs"

text \<open>
  What the program takes from the library and the interpreter as it comes:
  \<^verbatim>\<open>ast.parse\<close> (\<open>Inl msg\<close> when it raises, \<open>msg\<close> being \<^verbatim>\<open>str(e)\<close>),
  \<^verbatim>\<open>inspect.cleandoc\<close>, which \<^verbatim>\<open>ast.get_docstring\<close> applies to the docstring, the
  depth of nesting up to which \<^verbatim>\<open>ast.unparse\<close> renders an expression, and the text of
  the \<^verbatim>\<open>RecursionError\<close> it raises beyond that depth.
\<close>

record pylib =
  ast_parse :: "string \<Rightarrow> string + node"
  cleandoc :: "string \<Rightarrow> string"
  unparse_depth :: nat
  recursion_error :: string

text \<open>
  \<^verbatim>\<open>ast.unparse(e)\<close>: the text of the expression, or \<open>Inl\<close> the text of the
  exception when it raises.
\<close>

definition ast_unparse :: "pylib \<Rightarrow> expr \<Rightarrow> string + string" where
  "ast_unparse L e =
     (if expr_depth e \<le> unparse_depth L then Inr (unparse e) else Inl (recursion_error L))"

text \<open>
  \<^verbatim>\<open>ast.walk(node)\<close>: breadth first, from a queue that starts with the node; each
  node taken from the front has its children appended at the back.
\<close>

function walk_queue :: "node list \<Rightarrow> node list" where
  "walk_queue [] = []"
| "walk_queue (n # todo) = n # walk_queue (todo @ iter_child_nodes n)"
  by pat_completeness auto
termination
proof (relation "measure (size_list size)")
  show "wf (measure (size_list size))" by simp
next
  fix n :: node and todo :: "node list"
  show "(todo @ iter_child_nodes n, n # todo) \<in> measure (size_list size)"
    by (cases n) (simp add: size_list_append)
qed

definition walk :: "node \<Rightarrow> node list" where
  "walk tree = walk_queue [tree]"

text \<open>
  \<^verbatim>\<open>ast.get_docstring(node)\<close>, on the body of a function definition: the cleaned
  text of a leading string expression statement, else \<^verbatim>\<open>None\<close>.
\<close>

fun get_docstring :: "pylib \<Rightarrow> node list \<Rightarrow> string option" where
  "get_docstring L (Node (StrExpr s) cs # rest) = Some (cleandoc L s)"
| "get_docstring L body = None"

section \<open>Function records\<close>

record arg_info =
  arg_name :: string
  arg_type :: "string option"

record func_details =
  func_name :: string
  func_args :: "arg_info list"
  func_returns :: "string option"
  func_docstring :: string

text \<open>
  The body of the loop over \<^verbatim>\<open>node.args.args\<close>, and the loop: the entry of a
  parameter, with the type when it is annotated. \<open>Inl\<close> is the text of the exception
  when \<^verbatim>\<open>ast.unparse\<close> raises; the first one ends the loop.
\<close>

fun analyze_arg :: "pylib \<Rightarrow> arg \<Rightarrow> string + arg_info" where
  "analyze_arg L (Arg a None) = Inr \<lparr>arg_name = a, arg_type = None\<rparr>"
| "analyze_arg L (Arg a (Some ann)) =
     (case ast_unparse L ann of
        Inl e \<Rightarrow> Inl e
      | Inr t \<Rightarrow> Inr \<lparr>arg_name = a, arg_type = Some t\<rparr>)"

fun analyze_args :: "pylib \<Rightarrow> arg list \<Rightarrow> string + arg_info list" where
  "analyze_args L [] = Inr []"
| "analyze_args L (x # xs) =
     (case analyze_arg L x of
        Inl e \<Rightarrow> Inl e
      | Inr i \<Rightarrow> (case analyze_args L xs of Inl e \<Rightarrow> Inl e | Inr is \<Rightarrow> Inr (i # is)))"

text \<open>
  \<^verbatim>\<open>analyze_function(node)\<close>, given the fields of the \<^verbatim>\<open>FunctionDef\<close> it reads:
  \<^verbatim>\<open>node.name\<close>, \<^verbatim>\<open>node.args.args\<close>, \<^verbatim>\<open>node.returns\<close> and the body. It
  returns the record, or \<open>Inl\<close> the text of the exception that leaves it.
\<close>

definition analyze_function ::
  "pylib \<Rightarrow> string \<Rightarrow> arg list \<Rightarrow> expr option \<Rightarrow> node list \<Rightarrow> string + func_details" where
  "analyze_function L nm as rets body =
     (let docstring = (case get_docstring L body of None \<Rightarrow> [] | Some d \<Rightarrow> d) in
      case analyze_args L as of
        Inl e \<Rightarrow> Inl e
      | Inr args \<Rightarrow>
          (case rets of
             None \<Rightarrow>
               Inr \<lparr>func_name = nm, func_args = args, func_returns = None,
                    func_docstring = docstring\<rparr>
           | Some r \<Rightarrow>
               (case ast_unparse L r of
                  Inl e \<Rightarrow> Inl e
                | Inr t \<Rightarrow>
                    Inr \<lparr>func_name = nm, func_args = args, func_returns = Some t,
                         func_docstring = docstring\<rparr>)))"

section \<open>Dictionaries, loops and errors\<close>

text \<open>
  A \<^verbatim>\<open>dict\<close> is an association list in insertion order: \<^const>\<open>map_of\<close> looks a
  key up, and \<^const>\<open>AList.update\<close> is \<^verbatim>\<open>d[k] = v\<close> (the value is replaced where the
  key stands, a new key goes to the end).
\<close>

type_synonym modules = "(string \<times> func_details list) list"
type_synonym file_record = "(string \<times> modules) list"
type_synonym project_data = "(string \<times> file_record) list"

text \<open>
  \<^verbatim>\<open>m.setdefault(k, d)\<close> puts the key in when it is missing; \<open>list_append\<close> is
  \<^verbatim>\<open>.append(v)\<close> on the list the dictionary holds under the key.
\<close>

definition setdefault :: "('k \<times> 'v) list \<Rightarrow> 'k \<Rightarrow> 'v \<Rightarrow> ('k \<times> 'v) list" where
  "setdefault m k d = (case map_of m k of None \<Rightarrow> m @ [(k, d)] | Some v \<Rightarrow> m)"

definition list_append :: "('k \<times> 'v list) list \<Rightarrow> 'k \<Rightarrow> 'v \<Rightarrow> ('k \<times> 'v list) list" where
  "list_append m k v =
     (case map_of m k of None \<Rightarrow> m | Some vs \<Rightarrow> AList.update k (vs @ [v]) m)"

text \<open>The exceptions that leave a function of the program.\<close>

datatype error =
    OSError string
  | KeyError string
  | UnboundLocalError string
  | UnicodeEncodeError string

text \<open>A \<^verbatim>\<open>for\<close> loop over a list whose body may raise: the first exception ends it.\<close>

fun for_each :: "('a \<Rightarrow> 's \<Rightarrow> error + 's) \<Rightarrow> 'a list \<Rightarrow> 's \<Rightarrow> error + 's" where
  "for_each body [] s = Inr s"
| "for_each body (x # xs) s =
     (case body x s of Inl e \<Rightarrow> Inl e | Inr s' \<Rightarrow> for_each body xs s')"

section \<open>Processing one file\<close>

text \<open>
  What \<^verbatim>\<open>open(file_path, 'r', encoding='utf-8')\<close> and \<^verbatim>\<open>f.read()\<close> find at a
  path: a file that cannot be opened (\<^verbatim>\<open>open\<close> raises an \<^verbatim>\<open>OSError\<close>), a file
  that opens but whose \<^verbatim>\<open>read\<close> raises (a decoding error, say), or its text. The
  strings of the first two are \<^verbatim>\<open>str(e)\<close>.
\<close>

datatype source_file = Unopenable string | Unreadable string | Text string

definition error_line :: "string \<Rightarrow> string \<Rightarrow> string" where
  "error_line file_path msg = ''Error parsing '' @ file_path @ '': '' @ msg"

text \<open>
  The loop of \<^verbatim>\<open>process_file\<close> over the nodes \<^verbatim>\<open>ast.walk\<close> yields. It runs
  inside the \<^verbatim>\<open>try\<close>: an exception ends it, and its text is returned beside the
  result as it then is. In
  \<^verbatim>\<open>result['modules'].setdefault(module_name, []).append(analyze_function(node))\<close>
  the call of \<^verbatim>\<open>setdefault\<close> comes before the argument of \<^verbatim>\<open>append\<close> is
  evaluated: when \<^verbatim>\<open>analyze_function\<close> raises, the module is already in the
  dictionary, with the records appended so far or with none.
\<close>

fun visit_nodes ::
  "pylib \<Rightarrow> string \<Rightarrow> node list \<Rightarrow> file_record \<Rightarrow> file_record \<times> string option" where
  "visit_nodes L file_path [] result = (result, None)"
| "visit_nodes L file_path (n # ns) result =
     (case node_kind n of
        FunctionDef nm as rets \<Rightarrow>
          (case map_of result ''modules'' of
             None \<Rightarrow> (result, Some ([CHR 0x27] @ ''modules'' @ [CHR 0x27]))
           | Some mods \<Rightarrow>
               (let mods1 = setdefault mods (module_name_of file_path) [];
                    result1 = AList.update ''modules'' mods1 result
                in case analyze_function L nm as rets (iter_child_nodes n) of
                     Inl e \<Rightarrow> (result1, Some e)
                   | Inr details \<Rightarrow>
                       visit_nodes L file_path ns
                         (AList.update ''modules''
                            (list_append mods1 (module_name_of file_path) details)
                            result1)))
      | _ \<Rightarrow> visit_nodes L file_path ns result)"

text \<open>
  \<^verbatim>\<open>process_file(file_path)\<close>, given what is at the path. It returns the result
  dictionary and the lines it printed; \<^verbatim>\<open>open\<close> stands outside the \<^verbatim>\<open>try\<close>, so
  its exception leaves the function.
\<close>

definition process_file :: "pylib \<Rightarrow> string \<Rightarrow> source_file \<Rightarrow> error + (file_record \<times> string list)" where
  "process_file L file_path f =
     (let result = [(''modules'', [])] in
      case f of
        Unopenable e \<Rightarrow> Inl (OSError e)
      | Unreadable e \<Rightarrow> Inr (result, [error_line file_path e])
      | Text src \<Rightarrow>
          (case ast_parse L src of
             Inl e \<Rightarrow> Inr (result, [error_line file_path e])
           | Inr tree \<Rightarrow>
               (case visit_nodes L file_path (walk tree) result of
                  (result', None) \<Rightarrow> Inr (result', [])
                | (result', Some e) \<Rightarrow> Inr (result', [error_line file_path e]))))"

section \<open>Scanning a directory tree\<close>

text \<open>
  A directory: its name, its non-directory entries with what is at each, and its
  subdirectories. \<^verbatim>\<open>os.walk(top)\<close> yields the directory path and the file names of
  the directory first, then walks each subdirectory \<^verbatim>\<open>os.path.join(top, name)\<close> in turn. The
  name of the tree's root is not used: the root is reached by the path given. A directory
  that cannot be listed is one without entries (\<^verbatim>\<open>os.walk\<close> ignores the error), and
  a link to a directory, which \<^verbatim>\<open>os.walk\<close> does not follow, is not a subdirectory.
\<close>

datatype dirtree = Dir (dir_name: string) (dir_files: "(string \<times> source_file) list") (dir_subdirs: "dirtree list")

fun os_walk :: "string \<Rightarrow> dirtree \<Rightarrow> (string \<times> (string \<times> source_file) list) list" where
  "os_walk dirpath (Dir nm fs subdirs) =
     (dirpath, fs) # concat (map (\<lambda>d. os_walk (path_join dirpath (dir_name d)) d) subdirs)"

text \<open>
  The body of the inner loop of \<^verbatim>\<open>scan_project\<close>, on the pair of
  \<^verbatim>\<open>project_data\<close> and the lines printed so far: \<open>add_file\<close> is what is done
  for a file that passes the test on its name. \<open>script\<close> is \<^verbatim>\<open>__file__\<close>.
\<close>

definition add_file ::
  "pylib \<Rightarrow> string \<times> source_file \<Rightarrow> project_data \<times> string list
     \<Rightarrow> error + (project_data \<times> string list)" where
  "add_file L entry st =
     (case entry of (full_path, f) \<Rightarrow>
      case st of (project_data, out) \<Rightarrow>
        case process_file L full_path f of
          Inl e \<Rightarrow> Inl e
        | Inr (data, printed) \<Rightarrow>
            (case map_of data ''modules'' of
               None \<Rightarrow> Inl (KeyError ''modules'')
             | Some mods \<Rightarrow>
                 Inr (if mods \<noteq> [] then AList.update full_path data project_data
                      else project_data,
                      out @ printed)))"

definition eligible :: "string \<Rightarrow> string \<Rightarrow> bool" where
  "eligible script filename \<longleftrightarrow> endswith filename ''.py'' \<and> filename \<noteq> basename script"

definition scan_file ::
  "pylib \<Rightarrow> string \<Rightarrow> string \<Rightarrow> string \<times> source_file \<Rightarrow> project_data \<times> string list
     \<Rightarrow> error + (project_data \<times> string list)" where
  "scan_file L script dirpath entry st =
     (case entry of (filename, f) \<Rightarrow>
        if eligible script filename then add_file L (path_join dirpath filename, f) st
        else Inr st)"

definition scan_walk ::
  "pylib \<Rightarrow> string \<Rightarrow> (string \<times> (string \<times> source_file) list) list
     \<Rightarrow> error + (project_data \<times> string list)" where
  "scan_walk L script walked =
     for_each (\<lambda>(dirpath, filenames). for_each (scan_file L script dirpath) filenames)
       walked ([], [])"

definition scan_project ::
  "pylib \<Rightarrow> string \<Rightarrow> string \<Rightarrow> dirtree \<Rightarrow> error + (project_data \<times> string list)" where
  "scan_project L script root_dir tree = scan_walk L script (os_walk root_dir tree)"

section \<open>Rendering the report\<close>

text \<open>\<^verbatim>\<open>sep.join(xs)\<close>\<close>

fun str_join :: "string \<Rightarrow> string list \<Rightarrow> string" where
  "str_join sep [] = []"
| "str_join sep [x] = x"
| "str_join sep (x # y # ys) = x @ sep @ str_join sep (y # ys)"

text \<open>
  \<^verbatim>\<open>repr\<close> of a string: in single quotes, or in double quotes when it holds a single
  quote and no double quote; the quote and the backslash are escaped, control characters
  are written as escapes. \<^verbatim>\<open>repr\<close> also escapes the characters outside ASCII
  that are not printable; here the bytes from 128 on are copied, which is \<^verbatim>\<open>repr\<close>
  for the strings that hold no such character, as the names of parameters do (an identifier
  cannot hold one).
\<close>

definition hex_digit :: "nat \<Rightarrow> char" where
  "hex_digit n = ''0123456789abcdef'' ! (n mod 16)"

definition repr_char :: "char \<Rightarrow> char \<Rightarrow> string" where
  "repr_char q c =
     (if c = q \<or> c = CHR 0x5C then [CHR 0x5C, c]
      else if c = CHR 0x09 then [CHR 0x5C, CHR ''t'']
      else if c = CHR 0x0A then [CHR 0x5C, CHR ''n'']
      else if c = CHR 0x0D then [CHR 0x5C, CHR ''r'']
      else if (of_char c :: nat) < 32 \<or> c = CHR 0x7F
        then [CHR 0x5C, CHR ''x'', hex_digit (of_char c div 16), hex_digit (of_char c)]
      else [c])"

definition py_repr :: "string \<Rightarrow> string" where
  "py_repr s =
     (let q = (if CHR 0x27 \<in> set s \<and> CHR 0x22 \<notin> set s then CHR 0x22 else CHR 0x27)
      in [q] @ concat (map (repr_char q) s) @ [q])"

text \<open>\<^verbatim>\<open>str\<close> of a list of strings, as an f-string formats it.\<close>

definition str_of_list :: "string list \<Rightarrow> string" where
  "str_of_list xs = ''['' @ str_join '', '' (map py_repr xs) @ '']''"

text \<open>\<^verbatim>\<open>func['returns'] or 'None'\<close>\<close>

definition returns_text :: "func_details \<Rightarrow> string" where
  "returns_text func =
     (case func_returns func of
        None \<Rightarrow> ''None''
      | Some r \<Rightarrow> if r = [] then ''None'' else r)"

text \<open>
  A document of the \<^verbatim>\<open>docx\<close> library is the list of the headings (with their
  level) and paragraphs added to it. The local variables \<^verbatim>\<open>doc\<close> and \<^verbatim>\<open>lines\<close>
  of \<^verbatim>\<open>generate_report\<close> are \<open>None\<close> while nothing has been assigned to them;
  reading one then raises \<^verbatim>\<open>UnboundLocalError\<close>.
\<close>

datatype doc_elem = Heading string nat | Paragraph string

record render_state =
  doc :: "doc_elem list option"
  lines :: "string list option"

definition doc_add :: "doc_elem list \<Rightarrow> render_state \<Rightarrow> error + render_state" where
  "doc_add es st =
     (case doc st of
        None \<Rightarrow> Inl (UnboundLocalError ''doc'')
      | Some d \<Rightarrow> Inr (st\<lparr>doc := Some (d @ es)\<rparr>))"

definition lines_append :: "string list \<Rightarrow> render_state \<Rightarrow> error + render_state" where
  "lines_append ls st =
     (case lines st of
        None \<Rightarrow> Inl (UnboundLocalError ''lines'')
      | Some l \<Rightarrow> Inr (st\<lparr>lines := Some (l @ ls)\<rparr>))"

definition function_lines :: "func_details \<Rightarrow> string list" where
  "function_lines func =
     [[CHR 0x0A] @ ''Function: '' @ func_name func,
      ''Inputs: '' @ str_of_list (map arg_name (func_args func)),
      ''Returns: '' @ returns_text func,
      ''Description: '' @ func_docstring func,
      replicate 40 (CHR ''-'')]"

definition function_elems :: "func_details \<Rightarrow> doc_elem list" where
  "function_elems func =
     [Heading (func_name func) 3,
      Paragraph (''Arguments: '' @ str_of_list (map arg_name (func_args func))),
      Paragraph (''Returns: '' @ returns_text func),
      Paragraph (''Description: '' @ func_docstring func)]"

definition file_header :: "string \<Rightarrow> string" where
  "file_header file_path =
     [CHR 0x0A] @ ''File: '' @ file_path @ [CHR 0x0A] @ replicate 40 (CHR ''-'')"

definition module_header :: "string \<Rightarrow> string" where
  "module_header m = [CHR 0x0A] @ ''Module: '' @ m @ [CHR 0x0A] @ replicate 40 (CHR ''='')"

text \<open>The bodies of the three nested loops of \<^verbatim>\<open>generate_report\<close>.\<close>

definition render_function :: "string \<Rightarrow> func_details \<Rightarrow> render_state \<Rightarrow> error + render_state" where
  "render_function output_format func st =
     (if output_format = ''docx'' then doc_add (function_elems func) st
      else lines_append (function_lines func) st)"

definition render_module ::
  "string \<Rightarrow> string \<times> func_details list \<Rightarrow> render_state \<Rightarrow> error + render_state" where
  "render_module output_format entry st =
     (case entry of (m, functions) \<Rightarrow>
      case (if output_format = ''docx'' then doc_add [Heading (''Module: '' @ m) 2] st
            else lines_append [module_header m] st) of
        Inl e \<Rightarrow> Inl e
      | Inr st' \<Rightarrow> for_each (render_function output_format) functions st')"

definition render_file ::
  "string \<Rightarrow> string \<times> file_record \<Rightarrow> render_state \<Rightarrow> error + render_state" where
  "render_file output_format entry st =
     (case entry of (file_path, file_modules) \<Rightarrow>
      case (if output_format = ''docx'' then doc_add [Heading (''File: '' @ file_path) 1] st
            else lines_append [file_header file_path] st) of
        Inl e \<Rightarrow> Inl e
      | Inr st' \<Rightarrow>
          (case map_of file_modules ''modules'' of
             None \<Rightarrow> Inl (KeyError ''modules'')
           | Some mods \<Rightarrow> for_each (render_module output_format) mods st'))"

text \<open>
  What the program leaves behind: the lines printed and the files of the working
  directory. \<open>cwd_writable\<close> tells whether the output file can be opened for
  writing there; otherwise \<^verbatim>\<open>open\<close> raises an \<^verbatim>\<open>OSError\<close>. A text with a lone
  surrogate cannot be encoded: \<^verbatim>\<open>f.write\<close> raises a \<^verbatim>\<open>UnicodeEncodeError\<close>, and
  the file, which is open by then, is left empty. When writing raises, no confirmation is
  printed; the result of a run that raises is the exception, without the state it leaves.
\<close>

datatype artifact = TextFile string | DocxFile "doc_elem list"

record world =
  stdout :: "string list"
  files :: "string \<Rightarrow> artifact option"
  cwd_writable :: bool

fun unencodable :: "artifact \<Rightarrow> bool" where
  "unencodable (TextFile t) = has_surrogate t"
| "unencodable (DocxFile d) = False"

definition write_file :: "string \<Rightarrow> artifact \<Rightarrow> string \<Rightarrow> world \<Rightarrow> error + world" where
  "write_file path content message w =
     (if \<not> cwd_writable w then Inl (OSError path)
      else if unencodable content then Inl (UnicodeEncodeError path)
      else Inr (w\<lparr>files := (files w)(path \<mapsto> content), stdout := stdout w @ [message]\<rparr>))"

text \<open>
  \<^verbatim>\<open>generate_report(data, output_format)\<close>. \<open>Document\<close> tells whether the
  \<^verbatim>\<open>docx\<close> library was imported (the global \<^verbatim>\<open>Document\<close> is not \<^verbatim>\<open>None\<close>).
\<close>

definition generate_report :: "bool \<Rightarrow> project_data \<Rightarrow> string \<Rightarrow> world \<Rightarrow> error + world" where
  "generate_report Document data output_format w =
     (let st0 = (if output_format = ''docx'' \<and> Document
                 then \<lparr>doc = Some [Heading ''Project Documentation'' 0], lines = None\<rparr>
                 else \<lparr>doc = None, lines = Some []\<rparr>)
      in case for_each (render_file output_format) data st0 of
           Inl e \<Rightarrow> Inl e
         | Inr st \<Rightarrow>
             if output_format = ''docx'' \<and> Document then
               (case doc st of
                  None \<Rightarrow> Inl (UnboundLocalError ''doc'')
                | Some d \<Rightarrow>
                    write_file ''project_documentation.docx'' (DocxFile d)
                      ''Word document generated: project_documentation.docx'' w)
             else
               (case lines st of
                  None \<Rightarrow> Inl (UnboundLocalError ''lines'')
                | Some ls \<Rightarrow>
                    write_file ''project_documentation.txt'' (TextFile (str_join [CHR 0x0A] ls))
                      ''Text document generated: project_documentation.txt'' w))"

text \<open>
  The program run as a script. \<open>script\<close> is the absolute path \<^verbatim>\<open>__file__\<close> and
  \<open>tree\<close> the directory that holds it.
\<close>

definition advisory :: string where
  "advisory = ''Install python-docx for Word document support''"

definition main :: "pylib \<Rightarrow> bool \<Rightarrow> string \<Rightarrow> dirtree \<Rightarrow> world \<Rightarrow> error + world" where
  "main L Document script tree w =
     (let project_root = dirname script in
      case scan_project L script project_root tree of
        Inl e \<Rightarrow> Inl e
      | Inr (project_data, printed) \<Rightarrow>
          (let w1 = w\<lparr>stdout := stdout w @ printed\<rparr> in
           if Document then generate_report Document project_data ''docx'' w1
           else
             (case generate_report Document project_data ''txt'' w1 of
                Inl e \<Rightarrow> Inl e
              | Inr w2 \<Rightarrow> Inr (w2\<lparr>stdout := stdout w2 @ [advisory]\<rparr>))))"

section \<open>Notions the properties are stated with\<close>

text \<open>
  \<^verbatim>\<open>isinstance(node, ast.FunctionDef)\<close>, and the nodes that define a function in
  Python: those of \<^verbatim>\<open>def\<close> and of \<^verbatim>\<open>async def\<close>.
\<close>

fun is_FunctionDef :: "node \<Rightarrow> bool" where
  "is_FunctionDef (Node (FunctionDef nm as rets) cs) = True"
| "is_FunctionDef n = False"

fun defines_function :: "node \<Rightarrow> bool" where
  "defines_function (Node (FunctionDef nm as rets) cs) = True"
| "defines_function (Node (AsyncFunctionDef nm as rets) cs) = True"
| "defines_function n = False"

text \<open>
  The entry of a parameter whose annotation, if it has one, is rendered; the annotations
  \<^verbatim>\<open>analyze_function\<close> renders for a node; and the nodes it can analyse: none of
  their annotations is nested deeper than \<^verbatim>\<open>ast.unparse\<close> goes.
\<close>

fun arg_details :: "arg \<Rightarrow> arg_info" where
  "arg_details (Arg a ann) = \<lparr>arg_name = a, arg_type = map_option unparse ann\<rparr>"

fun arg_annotation :: "arg \<Rightarrow> expr list" where
  "arg_annotation (Arg a None) = []"
| "arg_annotation (Arg a (Some e)) = [e]"

fun node_annotations :: "node \<Rightarrow> expr list" where
  "node_annotations (Node (FunctionDef nm as rets) cs) =
     concat (map arg_annotation as) @ (case rets of None \<Rightarrow> [] | Some r \<Rightarrow> [r])"
| "node_annotations n = []"

definition analyzable :: "pylib \<Rightarrow> node \<Rightarrow> bool" where
  "analyzable L n \<longleftrightarrow> list_all (\<lambda>e. expr_depth e \<le> unparse_depth L) (node_annotations n)"

text \<open>
  The record of a node that is a \<^verbatim>\<open>FunctionDef\<close> (none when analysing it raises),
  and the records of a list of nodes.
\<close>

fun node_record :: "pylib \<Rightarrow> node \<Rightarrow> func_details list" where
  "node_record L (Node (FunctionDef nm as rets) body) =
     (case analyze_function L nm as rets body of Inl e \<Rightarrow> [] | Inr r \<Rightarrow> [r])"
| "node_record L n = []"

definition function_records :: "pylib \<Rightarrow> node list \<Rightarrow> func_details list" where
  "function_records L ns = concat (map (node_record L) ns)"

text \<open>All nodes of a tree: the node and, recursively, the nodes below its children.\<close>

fun subnodes :: "node \<Rightarrow> node list" where
  "subnodes (Node k cs) = Node k cs # concat (map subnodes cs)"

text \<open>All function records of a result of \<^const>\<open>process_file\<close>, and its module mapping.\<close>

definition records_of :: "file_record \<Rightarrow> func_details list" where
  "records_of result = concat (map snd (concat (map snd result)))"

definition record_modules :: "file_record \<Rightarrow> modules" where
  "record_modules r = (case map_of r ''modules'' of None \<Rightarrow> [] | Some m \<Rightarrow> m)"

text \<open>
  A directory tree as a file system has it: a name is not empty and has no slash, and
  the names of the files of a directory differ, as do those of its subdirectories.
\<close>

definition wf_name :: "string \<Rightarrow> bool" where
  "wf_name n \<longleftrightarrow> n \<noteq> [] \<and> CHR ''/'' \<notin> set n"

fun wf_tree :: "dirtree \<Rightarrow> bool" where
  "wf_tree (Dir nm fs subdirs) \<longleftrightarrow>
     distinct (map fst fs) \<and> (\<forall>fn \<in> set (map fst fs). wf_name fn) \<and>
     distinct (map dir_name subdirs) \<and> (\<forall>d \<in> set subdirs. wf_name (dir_name d) \<and> wf_tree d)"





text \<open>
  The files an \<^verbatim>\<open>os.walk\<close> result holds that pass the test on the name, each with
  the path \<^verbatim>\<open>scan_project\<close> joins for it, in the order of the two loops.
\<close>

definition walked_files ::
  "string \<Rightarrow> (string \<times> (string \<times> source_file) list) list \<Rightarrow> (string \<times> source_file) list" where
  "walked_files script walked =
     concat (map (\<lambda>(dirpath, filenames).
                    map (\<lambda>(filename, f). (path_join dirpath filename, f))
                      (filter (\<lambda>(filename, f). eligible script filename) filenames))
               walked)"

text \<open>The function records extracted from a file; none when processing it raises.\<close>

definition extracted :: "pylib \<Rightarrow> string \<times> source_file \<Rightarrow> func_details list" where
  "extracted L entry =
     (case entry of (full_path, f) \<Rightarrow>
      case process_file L full_path f of
        Inl e \<Rightarrow> []
      | Inr (data, printed) \<Rightarrow> records_of data)"

text \<open>
  The lines of the text report, file by file, module by module, function by function,
  each in the order of its list.
\<close>

definition module_lines :: "string \<times> func_details list \<Rightarrow> string list" where
  "module_lines entry =
     (case entry of (m, functions) \<Rightarrow> module_header m # concat (map function_lines functions))"

definition file_lines :: "string \<times> file_record \<Rightarrow> string list" where
  "file_lines entry =
     (case entry of (file_path, r) \<Rightarrow>
        file_header file_path # concat (map module_lines (record_modules r)))"

definition report_lines :: "project_data \<Rightarrow> string list" where
  "report_lines data = concat (map file_lines data)"

definition has_modules :: "string \<times> file_record \<Rightarrow> bool" where
  "has_modules entry \<longleftrightarrow> map_of (snd entry) ''modules'' \<noteq> None"

text \<open>
  An entry of \<^verbatim>\<open>project_data\<close> as the scan makes it: under the key
  \<^verbatim>\<open>modules\<close>, one module, named after the file.
\<close>

definition entry_ok :: "string \<times> file_record \<Rightarrow> bool" where
  "entry_ok e \<longleftrightarrow> (\<exists>fs. snd e = [(''modules'', [(module_name_of (fst e), fs)])])"

section \<open>An example project\<close>

text \<open>
  Source texts with the trees \<^verbatim>\<open>ast.parse\<close> returns for them, a library that
  parses these (and the empty text), rejects every other text and renders expressions up
  to the depth 300, and a project directory \<^verbatim>\<open>/proj\<close> that holds the script
  \<^verbatim>\<open>main.py\<close>. \<open>src_deep\<close> defines one function, whose parameter is annotated
  with a chain of 350 attribute accesses; \<open>src_partial\<close> has it between two other
  functions.
\<close>

definition src_foo :: string where
  "src_foo = ''def foo(a: int, b) -> str: pass''"

definition tree_foo :: node where
  "tree_foo =
     Node Module
       [Node (FunctionDef ''foo'' [Arg ''a'' (Some (Name ''int'')), Arg ''b'' None]
                (Some (Name ''str'')))
          [Node Other []]]"

definition src_async :: string where
  "src_async = ''async def fetch(): pass''"

definition tree_async :: node where
  "tree_async = Node Module [Node (AsyncFunctionDef ''fetch'' [] None) [Node Other []]]"

definition src_nested :: string where
  "src_nested =
     ''class K:'' @ [CHR 0x0A] @ ''  def m(self):'' @ [CHR 0x0A] @ ''    def g(): pass''"

definition tree_nested :: node where
  "tree_nested =
     Node Module
       [Node (ClassDef ''K'')
          [Node (FunctionDef ''m'' [Arg ''self'' None] None)
             [Node (FunctionDef ''g'' [] None) [Node Other []]]]]"

fun nested_attribute :: "nat \<Rightarrow> expr" where
  "nested_attribute 0 = Name ''a''"
| "nested_attribute (Suc n) = Attribute (nested_attribute n) ''b''"

definition src_deep :: string where
  "src_deep = ''def deep(x: a'' @ concat (replicate 350 ''.b'') @ ''): pass''"

definition node_deep :: node where
  "node_deep =
     Node (FunctionDef ''deep'' [Arg ''x'' (Some (nested_attribute 350))] None) [Node Other []]"

definition tree_deep :: node where
  "tree_deep = Node Module [node_deep]"

definition src_partial :: string where
  "src_partial =
     ''def ok(): pass'' @ [CHR 0x0A] @ src_deep @ [CHR 0x0A] @ ''def after(): pass''"

definition tree_partial :: node where
  "tree_partial =
     Node Module
       [Node (FunctionDef ''ok'' [] None) [Node Other []],
        node_deep,
        Node (FunctionDef ''after'' [] None) [Node Other []]]"

definition example_lib :: pylib where
  "example_lib =
     \<lparr>ast_parse = (\<lambda>src.
         if src = src_foo then Inr tree_foo
         else if src = src_async then Inr tree_async
         else if src = src_nested then Inr tree_nested
         else if src = src_deep then Inr tree_deep
         else if src = src_partial then Inr tree_partial
         else if src = [] then Inr (Node Module [])
         else Inl ''invalid syntax''),
      cleandoc = (\<lambda>s. s),
      unparse_depth = 300,
      recursion_error = ''maximum recursion depth exceeded''\<rparr>"

definition example_script :: string where
  "example_script = ''/proj/main.py''"

definition example_dir :: dirtree where
  "example_dir =
     Dir ''proj''
       [(''a.py'', Text src_foo), (''bad.py'', Text ''def (''), (''main.py'', Text src_foo),
        (''notes.txt'', Text ''hello''), (''empty.py'', Text [])]
       [Dir ''pkg'' [(''b.py'', Text src_nested)] []]"

definition example_project :: project_data where
  "example_project =
     [(''/proj/a.py'',
       [(''modules'',
         [(''a'', [\<lparr>func_name = ''foo'',
                    func_args = [\<lparr>arg_name = ''a'', arg_type = Some ''int''\<rparr>,
                                 \<lparr>arg_name = ''b'', arg_type = None\<rparr>],
                    func_returns = Some ''str'', func_docstring = []\<rparr>])])]),
      (''/proj/pkg/b.py'',
       [(''modules'',
         [(''b'', [\<lparr>func_name = ''m'',
                    func_args = [\<lparr>arg_name = ''self'', arg_type = None\<rparr>],
                    func_returns = None, func_docstring = []\<rparr>,
                   \<lparr>func_name = ''g'', func_args = [], func_returns = None,
                    func_docstring = []\<rparr>])])])]"

definition example_data :: project_data where
  "example_data =
     [(''/proj/a.py'',
       [(''modules'',
         [(''a'', [\<lparr>func_name = ''foo'',
                    func_args = [\<lparr>arg_name = ''a'', arg_type = Some ''int''\<rparr>,
                                 \<lparr>arg_name = ''b'', arg_type = None\<rparr>],
                    func_returns = Some ''str'', func_docstring = []\<rparr>])])])]"

definition example_world :: world where
  "example_world = \<lparr>stdout = [], files = Map.empty, cwd_writable = True\<rparr>"

section \<open>Facts about loops and about processing a file\<close>

lemma for_each_append:
  "for_each body (xs @ ys) s =
     (case for_each body xs s of Inl e \<Rightarrow> Inl e | Inr s' \<Rightarrow> for_each body ys s')"
  by (induction xs arbitrary: s) (auto split: sum.splits)

lemma for_each_filter:
  "for_each (\<lambda>x s. if P x then body x s else Inr s) xs s = for_each body (filter P xs) s"
  by (induction xs arbitrary: s) (auto split: sum.splits)

lemma for_each_map:
  "for_each body (map g xs) s = for_each (\<lambda>x. body (g x)) xs s"
  by (induction xs arbitrary: s) (auto split: sum.splits)

lemma for_each_concat:
  "for_each body (concat xss) s = for_each (\<lambda>xs. for_each body xs) xss s"
  by (induction xss arbitrary: s) (auto simp: for_each_append split: sum.splits)

lemma function_records_Nil [simp]: "function_records L [] = []"
  by (simp add: function_records_def)

lemma function_records_Cons:
  "function_records L (n # ns) = node_record L n @ function_records L ns"
  by (simp add: function_records_def)

lemma function_records_append:
  "function_records L (xs @ ys) = function_records L xs @ function_records L ys"
  by (simp add: function_records_def)

lemma analyze_args_Inr:
  "analyze_args L as = Inr args \<Longrightarrow> args = map arg_details as"
proof (induction as arbitrary: args)
  case Nil
  then show ?case by simp
next
  case (Cons x xs)
  obtain a ann where x: "x = Arg a ann" by (cases x)
  show ?case
    using Cons.prems Cons.IH
    by (cases ann) (auto simp: x ast_unparse_def split: sum.splits if_splits)
qed

lemma analyze_args_ok:
  "list_all (\<lambda>e. expr_depth e \<le> unparse_depth L) (concat (map arg_annotation as)) \<Longrightarrow>
   analyze_args L as = Inr (map arg_details as)"
proof (induction as)
  case Nil
  show ?case by simp
next
  case (Cons x xs)
  obtain a ann where x: "x = Arg a ann" by (cases x)
  show ?case
    using Cons.prems Cons.IH
    by (cases ann) (auto simp: x ast_unparse_def)
qed

lemma analyze_function_Inr:
  assumes "analyze_function L nm as rets body = Inr r"
  shows "r = \<lparr>func_name = nm, func_args = map arg_details as,
              func_returns = map_option unparse rets,
              func_docstring = (case get_docstring L body of None \<Rightarrow> [] | Some d \<Rightarrow> d)\<rparr>"
  using assms
  by (auto simp: analyze_function_def Let_def ast_unparse_def dest!: analyze_args_Inr
      split: sum.splits option.splits if_splits)

lemma analyze_function_ok:
  assumes "analyzable L (Node (FunctionDef nm as rets) body)"
  shows "analyze_function L nm as rets body =
           Inr \<lparr>func_name = nm, func_args = map arg_details as,
                func_returns = map_option unparse rets,
                func_docstring = (case get_docstring L body of None \<Rightarrow> [] | Some d \<Rightarrow> d)\<rparr>"
  using assms
  by (cases rets) (simp_all add: analyzable_def analyze_function_def analyze_args_ok ast_unparse_def)

lemma analyze_function_raises:
  assumes "\<not> analyzable L (Node (FunctionDef nm as rets) body)"
  shows "analyze_function L nm as rets body = Inl (recursion_error L)"
proof (cases "analyze_function L nm as rets body")
  case (Inl e)
  have args: "e = recursion_error L" if "analyze_args L xs = Inl e" for xs e
    using that
  proof (induction xs)
    case Nil
    then show ?case by simp
  next
    case (Cons x xs)
    obtain a ann where x: "x = Arg a ann" by (cases x)
    show ?case
      using Cons.prems Cons.IH
      by (cases ann) (auto simp: x ast_unparse_def split: sum.splits if_splits)
  qed
  show ?thesis
    using Inl args
    by (auto simp: analyze_function_def Let_def ast_unparse_def
        split: sum.splits option.splits if_splits)
next
  case (Inr r)
  have "analyzable L (Node (FunctionDef nm as rets) body)"
  proof -
    have "list_all (\<lambda>e. expr_depth e \<le> unparse_depth L) (concat (map arg_annotation xs))"
      if "analyze_args L xs = Inr ys" for xs ys
      using that
    proof (induction xs arbitrary: ys)
      case Nil
      show ?case by simp
    next
      case (Cons x xs)
      obtain a ann where x: "x = Arg a ann" by (cases x)
      show ?case
        using Cons.prems Cons.IH
        by (cases ann) (auto simp: x ast_unparse_def split: sum.splits if_splits)
    qed
    then show ?thesis
      using Inr
      by (auto simp: analyzable_def analyze_function_def Let_def ast_unparse_def
          split: sum.splits option.splits if_splits)
  qed
  then show ?thesis using assms by simp
qed

lemma node_record_analyzable:
  "analyzable L n \<Longrightarrow> length (node_record L n) = (if is_FunctionDef n then 1 else 0)"
  by (induction L n rule: node_record.induct) (simp_all add: analyze_function_ok)

lemma visit_nodes_module:
  assumes "list_all (analyzable L) ns"
  shows "visit_nodes L p ns [(''modules'', [(module_name_of p, fs)])] =
     ([(''modules'', [(module_name_of p, fs @ function_records L ns)])], None)"
  using assms
proof (induction ns arbitrary: fs)
  case Nil
  show ?case by simp
next
  case (Cons n ns)
  obtain k cs where n: "n = Node k cs" by (cases n)
  show ?case
    using Cons.prems
    by (cases k)
      (simp_all add: n Cons.IH setdefault_def list_append_def function_records_Cons
        analyze_function_ok)
qed

lemma visit_nodes_empty:
  assumes "list_all (analyzable L) ns"
  shows "visit_nodes L p ns [(''modules'', [])] =
     ([(''modules'',
        if function_records L ns = [] then []
        else [(module_name_of p, function_records L ns)])], None)"
  using assms
proof (induction ns)
  case Nil
  show ?case by simp
next
  case (Cons n ns)
  obtain k cs where n: "n = Node k cs" by (cases n)
  show ?case
    using Cons.prems
    by (cases k)
      (simp_all add: n Cons.IH setdefault_def list_append_def function_records_Cons
        visit_nodes_module analyze_function_ok)
qed

lemma visit_nodes_shape:
  assumes "mods = [] \<or> (\<exists>fs. mods = [(module_name_of p, fs)])"
  shows "\<exists>mods' e. visit_nodes L p ns [(''modules'', mods)] = ([(''modules'', mods')], e) \<and>
           (mods' = [] \<or> (\<exists>fs. mods' = [(module_name_of p, fs)]))"
  using assms
proof (induction ns arbitrary: mods)
  case Nil
  then show ?case by simp
next
  case (Cons n ns)
  obtain k cs where n: "n = Node k cs" by (cases n)
  show ?case
  proof (cases "is_FunctionDef n")
    case False
    then show ?thesis
      using Cons.IH [OF Cons.prems] by (cases k) (simp_all add: n)
  next
    case True
    then obtain nm as rets where k: "k = FunctionDef nm as rets"
      by (cases k) (simp_all add: n)
    obtain fs0 where m1: "setdefault mods (module_name_of p) [] = [(module_name_of p, fs0)]"
      using Cons.prems by (auto simp: setdefault_def)
    show ?thesis
    proof (cases "analyze_function L nm as rets cs")
      case (Inl e)
      then show ?thesis by (simp add: n k m1)
    next
      case (Inr r)
      have "list_append [(module_name_of p, fs0)] (module_name_of p) r =
              [(module_name_of p, fs0 @ [r])]"
        by (simp add: list_append_def)
      then show ?thesis
        using Cons.IH [of "[(module_name_of p, fs0 @ [r])]"] by (simp add: n k m1 Inr)
    qed
  qed
qed

lemma process_file_parsed:
  assumes "ast_parse L src = Inr tree" and "list_all (analyzable L) (walk tree)"
  shows "process_file L p (Text src) =
           Inr ([(''modules'',
                  if function_records L (walk tree) = [] then []
                  else [(module_name_of p, function_records L (walk tree))])], [])"
  using assms by (simp add: process_file_def visit_nodes_empty)



lemma process_file_shape:
  assumes "process_file L p f = Inr (result, printed)"
  shows "\<exists>mods. result = [(''modules'', mods)] \<and>
           (mods = [] \<or> (\<exists>fs. mods = [(module_name_of p, fs)]))"
proof (cases f)
  case (Unopenable m)
  then show ?thesis using assms by (simp add: process_file_def)
next
  case (Unreadable m)
  then show ?thesis using assms by (auto simp: process_file_def)
next
  case (Text src)
  show ?thesis
  proof (cases "ast_parse L src")
    case (Inl m)
    then show ?thesis using assms Text by (auto simp: process_file_def)
  next
    case (Inr tree)
    obtain mods' e where v: "visit_nodes L p (walk tree) [(''modules'', [])] = ([(''modules'', mods')], e)"
      and sh: "mods' = [] \<or> (\<exists>fs. mods' = [(module_name_of p, fs)])"
      using visit_nodes_shape [of "[]" p L "walk tree"] by auto
    show ?thesis
      using assms sh by (cases e) (auto simp: process_file_def Text Inr v)
  qed
qed

lemma walk_queue_mset:
  "mset (walk_queue q) = mset (concat (map subnodes q))"
proof (induction q rule: walk_queue.induct)
  case 1
  show ?case by simp
next
  case (2 n todo)
  obtain k cs where n: "n = Node k cs" by (cases n)
  show ?case using "2.IH" by (simp add: n)
qed

lemma walk_mset: "mset (walk tree) = mset (subnodes tree)"
  by (cases tree) (simp add: walk_def walk_queue_mset)

lemma function_records_mset:
  "mset (function_records L ns) = (\<Sum>n\<in>#mset ns. mset (node_record L n))"
  by (induction ns) (simp_all add: function_records_Cons)

lemma function_records_mset_cong:
  "mset xs = mset ys \<Longrightarrow> mset (function_records L xs) = mset (function_records L ys)"
  by (simp add: function_records_mset)

lemma length_function_records:
  "list_all (analyzable L) ns \<Longrightarrow>
   length (function_records L ns) = length (filter is_FunctionDef ns)"
  by (induction ns) (simp_all add: function_records_Cons node_record_analyzable)

lemma length_filter_mset_cong:
  "mset xs = mset ys \<Longrightarrow> length (filter P xs) = length (filter P ys)"
  by (metis mset_filter size_mset)

section \<open>Facts about the scan\<close>

lemma process_file_modules:
  assumes "process_file L p f = Inr (data, printed)"
  shows "\<exists>mods. data = [(''modules'', mods)] \<and> record_modules data = mods"
  using process_file_shape [OF assms] by (auto simp: record_modules_def)

lemma add_file_Inl:
  "process_file L p f = Inl e \<Longrightarrow> add_file L (p, f) st = Inl e"
  by (cases st) (simp add: add_file_def)

lemma add_file_Inr:
  assumes "process_file L p f = Inr (data, printed)"
  shows "add_file L (p, f) (pd, out) =
           Inr (if record_modules data = [] then pd else AList.update p data pd, out @ printed)"
proof -
  obtain mods where data: "data = [(''modules'', mods)]"
    using process_file_modules [OF assms] by blast
  have pf: "process_file L p f = Inr ([(''modules'', mods)], printed)"
    using assms by (simp add: data)
  show ?thesis
    by (simp add: add_file_def pf data record_modules_def)
qed



lemma for_each_scan_file:
  "for_each (scan_file L script dirpath) fs st =
     for_each (add_file L)
       (map (\<lambda>(filename, f). (path_join dirpath filename, f))
          (filter (\<lambda>(filename, f). eligible script filename) fs)) st"
  by (induction fs arbitrary: st) (auto simp: scan_file_def split: sum.splits)

lemma scan_walk_flat:
  "scan_walk L script walked = for_each (add_file L) (walked_files script walked) ([], [])"
proof -
  have "for_each (\<lambda>(dirpath, filenames). for_each (scan_file L script dirpath) filenames) ds st =
        for_each (add_file L) (walked_files script ds) st" for ds st
    by (induction ds arbitrary: st)
      (auto simp: walked_files_def for_each_append for_each_scan_file split: sum.splits)
  then show ?thesis by (simp add: scan_walk_def)
qed







lemma set_update_cases:
  "x \<in> set (AList.update k v al) \<Longrightarrow> x = (k, v) \<or> x \<in> set al"
  by (induction al) (auto split: if_splits)

lemma add_file_entries:
  assumes "add_file L e (pd, out) = Inr (pd', out')" and "\<forall>x \<in> set pd. entry_ok x"
  shows "\<forall>x \<in> set pd'. entry_ok x"
proof (cases e)
  case (Pair p f)
  show ?thesis
  proof (cases "process_file L p f")
    case (Inl x)
    then show ?thesis using assms by (simp add: Pair add_file_Inl)
  next
    case (Inr r)
    obtain data printed where r: "r = (data, printed)" by (cases r)
    have pf: "process_file L p f = Inr (data, printed)" using Inr r by simp
    have "entry_ok (p, data)" if "record_modules data \<noteq> []"
      using process_file_shape [OF pf] that by (auto simp: entry_ok_def record_modules_def)
    then show ?thesis
      using assms add_file_Inr [OF pf, of pd out]
      by (auto simp: Pair dest!: set_update_cases split: if_splits)
  qed
qed

lemma for_each_add_file_entries:
  assumes "for_each (add_file L) es st = Inr st'" and "\<forall>x \<in> set (fst st). entry_ok x"
  shows "\<forall>x \<in> set (fst st'). entry_ok x"
  using assms
proof (induction es arbitrary: st)
  case Nil
  then show ?case by simp
next
  case (Cons e es)
  obtain pd out where st: "st = (pd, out)" by (cases st)
  from Cons.prems(1) obtain st1 where s1: "add_file L e st = Inr st1"
    and rest: "for_each (add_file L) es st1 = Inr st'"
    by (auto split: sum.splits)
  obtain pd1 out1 where st1: "st1 = (pd1, out1)" by (cases st1)
  have "\<forall>x \<in> set pd1. entry_ok x"
    using add_file_entries [of L e pd out pd1 out1] s1 Cons.prems(2) by (simp add: st st1)
  then show ?case
    using Cons.IH [OF rest] by (simp add: st1)
qed

lemma scan_project_entries:
  assumes "scan_project L script root_dir tree = Inr (pd, out)"
  shows "\<forall>x \<in> set pd. entry_ok x"
  using for_each_add_file_entries [of L _ "([], [])" "(pd, out)"] assms
  by (simp add: scan_project_def scan_walk_flat)

lemma example_scan:
  "scan_project example_lib example_script ''/proj'' example_dir =
     Inr ([(''/proj/a.py'',
            [(''modules'',
              [(''a'', [\<lparr>func_name = ''foo'',
                         func_args = [\<lparr>arg_name = ''a'', arg_type = Some ''int''\<rparr>,
                                      \<lparr>arg_name = ''b'', arg_type = None\<rparr>],
                         func_returns = Some ''str'', func_docstring = []\<rparr>])])]),
           (''/proj/pkg/b.py'',
            [(''modules'',
              [(''b'', [\<lparr>func_name = ''m'',
                         func_args = [\<lparr>arg_name = ''self'', arg_type = None\<rparr>],
                         func_returns = None, func_docstring = []\<rparr>,
                        \<lparr>func_name = ''g'', func_args = [], func_returns = None,
                         func_docstring = []\<rparr>])])])],
          [''Error parsing /proj/bad.py: invalid syntax''])"
  by code_simp

lemma example_process_nested:
  "process_file example_lib ''/proj/pkg/b.py'' (Text src_nested) =
     Inr ([(''modules'',
            [(''b'', [\<lparr>func_name = ''m'', func_args = [\<lparr>arg_name = ''self'', arg_type = None\<rparr>],
                       func_returns = None, func_docstring = []\<rparr>,
                      \<lparr>func_name = ''g'', func_args = [], func_returns = None,
                       func_docstring = []\<rparr>])])], [])"
  by code_simp

section \<open>Facts about paths and directory trees\<close>





















section \<open>Facts about rendering\<close>

lemma render_functions_text:
  assumes "output_format \<noteq> ''docx''"
  shows "for_each (render_function output_format) fs \<lparr>doc = d, lines = Some l\<rparr> =
           Inr \<lparr>doc = d, lines = Some (l @ concat (map function_lines fs))\<rparr>"
  using assms
  by (induction fs arbitrary: l) (simp_all add: render_function_def lines_append_def)

lemma render_module_text:
  assumes "output_format \<noteq> ''docx''"
  shows "render_module output_format m \<lparr>doc = d, lines = Some l\<rparr> =
           Inr \<lparr>doc = d, lines = Some (l @ module_lines m)\<rparr>"
  using assms
  by (cases m) (simp add: render_module_def lines_append_def render_functions_text module_lines_def)

lemma render_modules_text:
  assumes "output_format \<noteq> ''docx''"
  shows "for_each (render_module output_format) mods \<lparr>doc = d, lines = Some l\<rparr> =
           Inr \<lparr>doc = d, lines = Some (l @ concat (map module_lines mods))\<rparr>"
  by (induction mods arbitrary: l) (simp_all add: render_module_text [OF assms])

lemma render_file_text:
  assumes "output_format \<noteq> ''docx''"
  shows "render_file output_format e \<lparr>doc = d, lines = Some l\<rparr> =
           (if has_modules e then Inr \<lparr>doc = d, lines = Some (l @ file_lines e)\<rparr>
            else Inl (KeyError ''modules''))"
proof (cases e)
  case (Pair p r)
  show ?thesis
    using assms
    by (cases "map_of r ''modules''")
      (simp_all add: Pair render_file_def lines_append_def has_modules_def render_modules_text
        file_lines_def record_modules_def)
qed

lemma render_files_text:
  assumes "output_format \<noteq> ''docx''"
  shows "for_each (render_file output_format) data \<lparr>doc = d, lines = Some l\<rparr> =
           (if list_all has_modules data
            then Inr \<lparr>doc = d, lines = Some (l @ report_lines data)\<rparr>
            else Inl (KeyError ''modules''))"
proof (induction data arbitrary: l)
  case Nil
  show ?case by (simp add: report_lines_def)
next
  case (Cons e data)
  show ?case
    using Cons.IH [of "l @ file_lines e"]
    by (simp add: render_file_text [OF assms] report_lines_def)
qed

lemma generate_report_text:
  assumes "output_format \<noteq> ''docx''"
  shows "generate_report D data output_format w =
           (if list_all has_modules data
            then write_file ''project_documentation.txt''
                   (TextFile (str_join [CHR 0x0A] (report_lines data)))
                   ''Text document generated: project_documentation.txt'' w
            else Inl (KeyError ''modules''))"
  using assms by (simp add: generate_report_def render_files_text)

lemma generate_report_docx_unavailable:
  "generate_report False data ''docx'' w =
     (if data = []
      then write_file ''project_documentation.txt'' (TextFile [])
             ''Text document generated: project_documentation.txt'' w
      else Inl (UnboundLocalError ''doc''))"
proof (cases data)
  case Nil
  then show ?thesis by (simp add: generate_report_def)
next
  case (Cons e es)
  obtain p r where e: "e = (p, r)" by (cases e)
  show ?thesis
    by (simp add: Cons e generate_report_def render_file_def doc_add_def)
qed

lemma generate_report_text_mode:
  assumes "\<not> (output_format = ''docx'' \<and> D)"
    and "generate_report D data output_format w = Inr w'"
  shows "w' = w\<lparr>files := (files w)(''project_documentation.txt'' \<mapsto>
                    TextFile (str_join [CHR 0x0A] (report_lines data))),
                 stdout := stdout w @ [''Text document generated: project_documentation.txt'']\<rparr>
         \<and> cwd_writable w
         \<and> \<not> has_surrogate (str_join [CHR 0x0A] (report_lines data))"
proof (cases "output_format = ''docx''")
  case True
  then have D: "\<not> D" using assms(1) by simp
  have "data = []"
    using assms(2) generate_report_docx_unavailable [of data w] True D
    by (auto split: if_splits)
  then show ?thesis
    using assms(2) generate_report_docx_unavailable [of data w] True D
    by (auto simp: write_file_def report_lines_def split: if_splits)
next
  case False
  then show ?thesis
    using assms(2) generate_report_text [OF False, of D data w]
    by (auto simp: write_file_def split: if_splits)
qed

lemma example_data_modules: "list_all has_modules example_data"
  by (simp add: example_data_def has_modules_def)

lemma has_modules_entry_ok: "entry_ok e \<Longrightarrow> has_modules e"
  by (auto simp: entry_ok_def has_modules_def)

lemma scan_project_has_modules:
  assumes "scan_project L script root_dir tree = Inr (pd, out)"
  shows "list_all has_modules pd"
  using scan_project_entries [OF assms] by (simp add: list_all_iff has_modules_entry_ok)

lemma example_dirname: "dirname example_script = ''/proj''"
  by code_simp

lemma example_data_encodable:
  "\<not> has_surrogate (str_join [CHR 0x0A] (report_lines example_data))"
  by code_simp

lemma example_project_encodable:
  "\<not> has_surrogate (str_join [CHR 0x0A] (report_lines example_project))"
  by code_simp

section \<open>The function record of a definition\<close>

text \<open>
  Claim C4. For a function definition with the parameters \<^verbatim>\<open>(a: int, b)\<close> and the
  return annotation \<^verbatim>\<open>str\<close>, \<^verbatim>\<open>analyze_function\<close> returns the record with the
  arguments \<^verbatim>\<open>[{name: "a", type: "int"}, {name: "b"}]\<close> and the return type
  \<^verbatim>\<open>"str"\<close>. In general, whenever it returns a record, the record has one argument
  entry per parameter, in order; an entry has a type exactly when the parameter is
  annotated, and the type is the annotation as \<^verbatim>\<open>ast.unparse\<close> renders it. Without a
  return annotation the return type is \<^verbatim>\<open>None\<close>; a body that does not start with a
  string expression statement gives the empty docstring, and one that does gives the
  cleaned text of that string. It returns a record whenever no annotation is nested too
  deep for \<^verbatim>\<open>ast.unparse\<close>.
\<close>

theorem analyze_function_fields:
  "analyze_function L nm [Arg ''a'' (Some (Name ''int'')), Arg ''b'' None]
       (Some (Name ''str'')) body =
     Inr \<lparr>func_name = nm,
          func_args = [\<lparr>arg_name = ''a'', arg_type = Some ''int''\<rparr>,
                       \<lparr>arg_name = ''b'', arg_type = None\<rparr>],
          func_returns = Some ''str'',
          func_docstring = (case get_docstring L body of None \<Rightarrow> [] | Some d \<Rightarrow> d)\<rparr>
   \<and> (analyze_function L nm as rets body = Inr r \<longrightarrow>
        func_name r = nm \<and> func_args r = map arg_details as \<and>
        func_returns r = map_option unparse rets)
   \<and> (arg_type (arg_details (Arg a ann)) = None \<longleftrightarrow> ann = None)
   \<and> arg_name (arg_details (Arg a ann)) = a
   \<and> arg_type (arg_details (Arg a (Some e))) = Some (unparse e)
   \<and> (analyze_function L nm as None body = Inr r \<longrightarrow> func_returns r = None)
   \<and> ((\<forall>s cs rest. body \<noteq> Node (StrExpr s) cs # rest) \<longrightarrow>
        analyze_function L nm as rets body = Inr r \<longrightarrow> func_docstring r = [])
   \<and> (analyze_function L nm as rets (Node (StrExpr s) cs # rest) = Inr r \<longrightarrow>
        func_docstring r = cleandoc L s)
   \<and> (analyzable L (Node (FunctionDef nm as rets) body) \<longrightarrow>
        (\<exists>r. analyze_function L nm as rets body = Inr r))"
proof -
  have doc: "get_docstring L body = None" if "\<forall>s cs rest. body \<noteq> Node (StrExpr s) cs # rest"
    using that by (induction L body rule: get_docstring.induct) auto
  have concrete: "analyze_function L nm [Arg ''a'' (Some (Name ''int'')), Arg ''b'' None]
       (Some (Name ''str'')) body =
     Inr \<lparr>func_name = nm,
          func_args = [\<lparr>arg_name = ''a'', arg_type = Some ''int''\<rparr>,
                       \<lparr>arg_name = ''b'', arg_type = None\<rparr>],
          func_returns = Some ''str'',
          func_docstring = (case get_docstring L body of None \<Rightarrow> [] | Some d \<Rightarrow> d)\<rparr>"
    by (simp add: analyze_function_def ast_unparse_def)
  have general: "func_name r = nm \<and> func_args r = map arg_details as \<and>
        func_returns r = map_option unparse rets \<and>
        func_docstring r = (case get_docstring L body of None \<Rightarrow> [] | Some d \<Rightarrow> d)"
    if "analyze_function L nm as rets body = Inr r" for as rets body r
    using analyze_function_Inr [OF that] by simp
  have returns: "\<exists>r. analyze_function L nm as rets body = Inr r"
    if "analyzable L (Node (FunctionDef nm as rets) body)"
    using analyze_function_ok [OF that] by simp
  have none: "func_returns r = None" if "analyze_function L nm as None body = Inr r"
    using general [OF that] by simp
  have nodoc: "func_docstring r = []"
    if "\<forall>s cs rest. body \<noteq> Node (StrExpr s) cs # rest"
      and "analyze_function L nm as rets body = Inr r"
    using general [OF that(2)] doc [OF that(1)] by simp
  have withdoc: "func_docstring r = cleandoc L s"
    if "analyze_function L nm as rets (Node (StrExpr s) cs # rest) = Inr r"
    using general [OF that] by simp
  have entry: "(arg_type (arg_details (Arg a ann)) = None \<longleftrightarrow> ann = None)
      \<and> arg_name (arg_details (Arg a ann)) = a
      \<and> arg_type (arg_details (Arg a (Some e))) = Some (unparse e)"
    by simp
  show ?thesis
    using concrete general [of as rets body r] returns none nodoc withdoc entry
    by (intro conjI impI) simp_all
qed

theorem analyze_function_fields_witness:
  "analyze_function example_lib ''foo''
       [Arg ''a'' (Some (Name ''int'')), Arg ''b'' None] (Some (Name ''str'')) [Node Other []] =
     Inr \<lparr>func_name = ''foo'',
          func_args = [\<lparr>arg_name = ''a'', arg_type = Some ''int''\<rparr>,
                       \<lparr>arg_name = ''b'', arg_type = None\<rparr>],
          func_returns = Some ''str'',
          func_docstring = []\<rparr>"
  using analyze_function_fields [where L = example_lib and nm = "''foo''"
      and body = "[Node Other []]" and as = "[Arg ''a'' (Some (Name ''int'')), Arg ''b'' None]"
      and rets = "Some (Name ''str'')"]
  by simp

section \<open>The module name of a file\<close>

text \<open>
  Claim C5. The module name is meant to be the base name without its trailing
  \<^verbatim>\<open>.py\<close>, as it is for \<^verbatim>\<open>utils.py\<close>. The program computes it with
  \<^verbatim>\<open>replace('.py', '')\<close>, which removes every occurrence: the file
  \<^verbatim>\<open>/proj/my.pytools.py\<close>, whose base name ends with \<^verbatim>\<open>.py\<close>, gets the module
  name \<^verbatim>\<open>mytools\<close> and not \<^verbatim>\<open>my.pytools\<close>.
\<close>

theorem module_name_replaces_everywhere:
  "basename ''/proj/my.pytools.py'' = ''my.pytools.py''
   \<and> endswith (basename ''/proj/my.pytools.py'') ''.py''
   \<and> module_name_of ''/proj/my.pytools.py'' = ''mytools''
   \<and> module_name_of ''/proj/utils.py'' = ''utils''"
  by (simp add: module_name_of_def basename_def endswith_def)

section \<open>Files that do not parse\<close>



section \<open>Files that cannot be read\<close>




section \<open>One module per file\<close>

text \<open>
  Claim C10. A result of \<^verbatim>\<open>process_file\<close> is a dictionary with the single key
  \<^verbatim>\<open>modules\<close>; the module mapping under it has at most one module, and that one
  carries the name derived from the base name of the file and holds all the function
  records of the file. This holds for every result, also for one returned after an
  exception has ended the loop over the nodes. So every entry of the
  \<^verbatim>\<open>project_data\<close> a scan returns groups the records of its file under exactly one
  module.
\<close>

theorem file_record_has_one_module:
  "(process_file L file_path f = Inr (result, printed) \<longrightarrow>
      map fst result = [''modules''] \<and>
      (\<exists>mods. result = [(''modules'', mods)] \<and> length mods \<le> 1 \<and>
         (mods = [] \<or> (\<exists>fs. mods = [(module_name_of file_path, fs)] \<and> fs = records_of result))))
   \<and> (scan_project L script root_dir tree = Inr (pd, out) \<longrightarrow>
        (\<forall>entry \<in> set pd.
           \<exists>fs. snd entry = [(''modules'', [(module_name_of (fst entry), fs)])]))"
proof -
  have "\<exists>fs. snd entry = [(''modules'', [(module_name_of (fst entry), fs)])]"
    if "scan_project L script root_dir tree = Inr (pd, out)" and "entry \<in> set pd" for entry
    using scan_project_entries [OF that(1)] that(2) by (auto simp: entry_ok_def)
  moreover have "map fst result = [''modules''] \<and>
      (\<exists>mods. result = [(''modules'', mods)] \<and> length mods \<le> 1 \<and>
         (mods = [] \<or> (\<exists>fs. mods = [(module_name_of file_path, fs)] \<and> fs = records_of result)))"
    if "process_file L file_path f = Inr (result, printed)"
  proof -
    from process_file_shape [OF that] consider
      (none) "result = [(''modules'', [])]"
      | (some) fs where "result = [(''modules'', [(module_name_of file_path, fs)])]"
      by blast
    then show ?thesis
    proof cases
      case none
      then show ?thesis by simp
    next
      case some
      then show ?thesis by (simp add: records_of_def)
    qed
  qed
  ultimately show ?thesis by blast
qed

theorem file_record_has_one_module_witness:
  "process_file example_lib ''/proj/pkg/b.py'' (Text src_nested) =
     Inr ([(''modules'',
            [(''b'', [\<lparr>func_name = ''m'', func_args = [\<lparr>arg_name = ''self'', arg_type = None\<rparr>],
                       func_returns = None, func_docstring = []\<rparr>,
                      \<lparr>func_name = ''g'', func_args = [], func_returns = None,
                       func_docstring = []\<rparr>])])], [])
   \<and> map fst (fst (projr (process_file example_lib ''/proj/pkg/b.py'' (Text src_nested)))) =
     [''modules'']
   \<and> map fst (fst (projr (scan_project example_lib example_script ''/proj'' example_dir))) =
       [''/proj/a.py'', ''/proj/pkg/b.py'']
   \<and> map (map fst \<circ> record_modules \<circ> snd)
       (fst (projr (scan_project example_lib example_script ''/proj'' example_dir))) =
       [[''a''], [''b'']]"
proof -
  show ?thesis
    using file_record_has_one_module [where L = example_lib and file_path = "''/proj/pkg/b.py''"
        and f = "Text src_nested" and script = example_script and root_dir = "''/proj''"
        and tree = example_dir]
    by (simp add: example_process_nested example_scan record_modules_def)
qed

section \<open>The records of a file that parses\<close>

text \<open>
  Claim C6, as the program has it. For a file that parses and whose function definitions
  can all be analysed (no annotation is nested too deep for \<^verbatim>\<open>ast.unparse\<close>),
  \<^verbatim>\<open>process_file\<close> prints nothing and returns exactly one record per
  \<^verbatim>\<open>FunctionDef\<close> node of the tree (a plain \<^verbatim>\<open>def\<close>), at any depth: the walk
  reaches every node of the tree once, the records are those of the \<^verbatim>\<open>FunctionDef\<close>
  nodes in the order of the breadth-first walk, and a node of another class gives no record.
  The nodes of \<^verbatim>\<open>async def\<close> are of the class \<^verbatim>\<open>AsyncFunctionDef\<close>, which the
  test \<^verbatim>\<open>isinstance(node, ast.FunctionDef)\<close> does not accept: they give no record.
\<close>

theorem one_record_per_FunctionDef:
  assumes "ast_parse L src = Inr tree" and "list_all (analyzable L) (subnodes tree)"
  shows "\<exists>result. process_file L file_path (Text src) = Inr (result, [])
     \<and> records_of result = function_records L (walk tree)
     \<and> mset (walk tree) = mset (subnodes tree)
     \<and> mset (records_of result) = mset (function_records L (subnodes tree))
     \<and> length (records_of result) = length (filter is_FunctionDef (subnodes tree))
     \<and> (\<forall>nm as rets body. Node (FunctionDef nm as rets) body \<in> set (subnodes tree) \<longrightarrow>
          (\<exists>r. analyze_function L nm as rets body = Inr r \<and>
               node_record L (Node (FunctionDef nm as rets) body) = [r]))
     \<and> (\<forall>n. \<not> is_FunctionDef n \<longrightarrow> node_record L n = [])"
proof -
  let ?recs = "function_records L (walk tree)"
  let ?result = "[(''modules'', if ?recs = [] then [] else [(module_name_of file_path, ?recs)])]"
  have same: "set (walk tree) = set (subnodes tree)"
    using walk_mset by (rule mset_eq_setD)
  have walked: "list_all (analyzable L) (walk tree)"
    using assms(2) by (simp add: list_all_iff same)
  have pf: "process_file L file_path (Text src) = Inr (?result, [])"
    by (rule process_file_parsed [OF assms(1) walked])
  have ro: "records_of ?result = ?recs"
    by (simp add: records_of_def)
  have ms: "mset ?recs = mset (function_records L (subnodes tree))"
    by (rule function_records_mset_cong [OF walk_mset])
  have len: "length ?recs = length (filter is_FunctionDef (subnodes tree))"
    using length_filter_mset_cong [OF walk_mset] by (simp add: length_function_records [OF walked])
  have none: "node_record L n = []" if "\<not> is_FunctionDef n" for n
    using that by (induction L n rule: node_record.induct) simp_all
  have one: "\<exists>r. analyze_function L nm as rets body = Inr r \<and>
               node_record L (Node (FunctionDef nm as rets) body) = [r]"
    if "Node (FunctionDef nm as rets) body \<in> set (subnodes tree)" for nm as rets body
  proof -
    have "analyzable L (Node (FunctionDef nm as rets) body)"
      using assms(2) that by (simp add: list_all_iff)
    then show ?thesis by (simp add: analyze_function_ok)
  qed
  show ?thesis
    using pf ro ms len none one walk_mset by (intro exI [of _ ?result]) simp
qed

theorem one_record_per_FunctionDef_witness:
  "process_file example_lib ''/proj/pkg/b.py'' (Text src_nested) =
     Inr ([(''modules'',
            [(''b'', [\<lparr>func_name = ''m'', func_args = [\<lparr>arg_name = ''self'', arg_type = None\<rparr>],
                       func_returns = None, func_docstring = []\<rparr>,
                      \<lparr>func_name = ''g'', func_args = [], func_returns = None,
                       func_docstring = []\<rparr>])])], [])
   \<and> list_all (analyzable example_lib) (subnodes tree_nested)
   \<and> length (filter is_FunctionDef (subnodes tree_nested)) = 2"
proof -
  have p: "ast_parse example_lib src_nested = Inr tree_nested"
    by code_simp
  have a: "list_all (analyzable example_lib) (subnodes tree_nested)"
    by code_simp
  have "length (filter is_FunctionDef (subnodes tree_nested)) = 2"
    by code_simp
  then show ?thesis
    using one_record_per_FunctionDef [OF p a, of "''/proj/pkg/b.py''"] a
    by (simp add: example_process_nested)
qed

text \<open>
  The claim as stated fails for \<^verbatim>\<open>async def\<close>: the tree of
  \<^verbatim>\<open>async def fetch(): pass\<close> holds a function definition, and the file gets no record.
  It also fails when analysing a definition raises: of the three functions of
  \<open>src_partial\<close>, which parses, the second has an annotation nested too deep for
  \<^verbatim>\<open>ast.unparse\<close>; the exception ends the loop, only the record of the first function
  is returned, and an error line is printed.
\<close>

theorem functions_without_record:
  "ast_parse example_lib src_async = Inr tree_async
   \<and> filter defines_function (subnodes tree_async) =
       [Node (AsyncFunctionDef ''fetch'' [] None) [Node Other []]]
   \<and> process_file example_lib ''/proj/c.py'' (Text src_async) = Inr ([(''modules'', [])], [])
   \<and> ast_parse example_lib src_partial = Inr tree_partial
   \<and> length (filter is_FunctionDef (subnodes tree_partial)) = 3
   \<and> process_file example_lib ''/proj/p.py'' (Text src_partial) =
       Inr ([(''modules'',
              [(''p'', [\<lparr>func_name = ''ok'', func_args = [], func_returns = None,
                         func_docstring = []\<rparr>])])],
            [''Error parsing /proj/p.py: maximum recursion depth exceeded''])"
  by code_simp

section \<open>The entries of the project data\<close>

text \<open>
  Claim C3. The \<^verbatim>\<open>project_data\<close> of a scan is meant to have an entry exactly for the
  eligible files from which at least one function record was extracted, and no entry with
  an empty list of functions: \<^verbatim>\<open>scan_project\<close> stores a result only when its module
  mapping is not empty. The program misses a case. When analysing the first function
  definition of a file raises, \<^verbatim>\<open>setdefault\<close> has already put the module into the
  mapping, with an empty list; the exception is caught, and the result, whose module
  mapping is not empty, is stored. The file \<^verbatim>\<open>deep.py\<close>, whose only function has an
  annotation nested too deep for \<^verbatim>\<open>ast.unparse\<close>, gives no record and yet gets an
  entry, with an empty list of functions.
\<close>

theorem entry_with_empty_function_list:
  "scan_project example_lib example_script ''/proj''
     (Dir ''proj'' [(''deep.py'', Text src_deep)] []) =
     Inr ([(''/proj/deep.py'', [(''modules'', [(''deep'', [])])])],
          [''Error parsing /proj/deep.py: maximum recursion depth exceeded''])
   \<and> extracted example_lib (''/proj/deep.py'', Text src_deep) = []
   \<and> wf_tree (Dir ''proj'' [(''deep.py'', Text src_deep)] [])"
  by code_simp

section \<open>The files a scan processes\<close>



section \<open>The text report is determined by the project data\<close>

text \<open>
  Claim C7. In text mode (the output mode is not \<^verbatim>\<open>docx\<close>, or the \<^verbatim>\<open>docx\<close>
  library is absent) the text that \<^verbatim>\<open>generate_report\<close> writes to
  \<^verbatim>\<open>project_documentation.txt\<close> depends on the project data only: two runs that
  return, from any two states of the working directory and of the output, write the same
  text, and a second run after the first leaves the files as they are. The text is the
  lines of the files in the order of the project data, under each file those of its modules
  in their order, under each module those of its functions in their order, joined with
  newlines.
\<close>

theorem text_report_is_determined:
  assumes "\<not> (output_format = ''docx'' \<and> D1)" and "\<not> (output_format = ''docx'' \<and> D2)"
    and "generate_report D1 data output_format w1 = Inr w1'"
    and "generate_report D2 data output_format w2 = Inr w2'"
  shows "files w1' ''project_documentation.txt'' =
           Some (TextFile (str_join [CHR 0x0A] (report_lines data)))
     \<and> files w2' ''project_documentation.txt'' = files w1' ''project_documentation.txt''
     \<and> (\<exists>w1''. generate_report D1 data output_format w1' = Inr w1'' \<and> files w1'' = files w1')"
proof -
  note r1 = generate_report_text_mode [OF assms(1) assms(3)]
  note r2 = generate_report_text_mode [OF assms(2) assms(4)]
  have f1: "files w1' ''project_documentation.txt'' =
           Some (TextFile (str_join [CHR 0x0A] (report_lines data)))"
    using r1 by simp
  have f2: "files w2' ''project_documentation.txt'' =
           Some (TextFile (str_join [CHR 0x0A] (report_lines data)))"
    using r2 by simp
  have again: "\<exists>w1''. generate_report D1 data output_format w1' = Inr w1'' \<and> files w1'' = files w1'"
  proof (cases "output_format = ''docx''")
    case True
    then have D: "\<not> D1" using assms(1) by simp
    have "data = []"
      using assms(3) generate_report_docx_unavailable [of data w1] True D
      by (auto split: if_splits)
    then show ?thesis
      using r1 True D
      by (auto simp: generate_report_docx_unavailable write_file_def report_lines_def)
  next
    case False
    have "list_all has_modules data"
      using assms(3) generate_report_text [OF False, of D1 data w1] by (auto split: if_splits)
    then show ?thesis
      using r1 by (auto simp: generate_report_text [OF False] write_file_def)
  qed
  show ?thesis using f1 f2 again by simp
qed

theorem text_report_is_determined_witness:
  "(\<exists>w1' w2'.
      generate_report False example_data ''txt'' example_world = Inr w1'
      \<and> generate_report True example_data ''txt'' (example_world\<lparr>stdout := [''earlier'']\<rparr>) = Inr w2'
      \<and> files w1' ''project_documentation.txt'' =
          Some (TextFile (str_join [CHR 0x0A] (report_lines example_data)))
      \<and> files w2' ''project_documentation.txt'' = files w1' ''project_documentation.txt'')
   \<and> report_lines example_data =
       [[CHR 0x0A] @ ''File: /proj/a.py'' @ [CHR 0x0A] @ replicate 40 (CHR ''-''),
        [CHR 0x0A] @ ''Module: a'' @ [CHR 0x0A] @ replicate 40 (CHR ''=''),
        [CHR 0x0A] @ ''Function: foo'',
        ''Inputs: ['' @ [CHR 0x27] @ ''a'' @ [CHR 0x27] @ '', '' @ [CHR 0x27] @ ''b'' @ [CHR 0x27] @ '']'',
        ''Returns: str'',
        ''Description: '',
        replicate 40 (CHR ''-'')]"
proof -
  have n1: "\<not> (''txt'' = ''docx'' \<and> False)" and n2: "\<not> (''txt'' = ''docx'' \<and> True)"
    by simp_all
  obtain w1' where g1: "generate_report False example_data ''txt'' example_world = Inr w1'"
    by (simp add: generate_report_text example_data_modules example_data_encodable write_file_def
        example_world_def)
  obtain w2' where g2: "generate_report True example_data ''txt''
      (example_world\<lparr>stdout := [''earlier'']\<rparr>) = Inr w2'"
    by (simp add: generate_report_text example_data_modules example_data_encodable write_file_def
        example_world_def)
  have lines: "report_lines example_data =
       [[CHR 0x0A] @ ''File: /proj/a.py'' @ [CHR 0x0A] @ replicate 40 (CHR ''-''),
        [CHR 0x0A] @ ''Module: a'' @ [CHR 0x0A] @ replicate 40 (CHR ''=''),
        [CHR 0x0A] @ ''Function: foo'',
        ''Inputs: ['' @ [CHR 0x27] @ ''a'' @ [CHR 0x27] @ '', '' @ [CHR 0x27] @ ''b'' @ [CHR 0x27] @ '']'',
        ''Returns: str'',
        ''Description: '',
        replicate 40 (CHR ''-'')]"
    by code_simp
  show ?thesis
    using text_report_is_determined [OF n1 n2 g1 g2] g1 g2 lines by blast
qed

section \<open>Reports without the docx library\<close>

text \<open>
  Claim C2, as the program has it. When the \<^verbatim>\<open>docx\<close> library is absent, the program
  run as a script calls \<^verbatim>\<open>generate_report\<close> in text mode: if the scan returns, the
  output file can be opened for writing and the text of the report can be encoded (it holds
  no lone surrogate), the run raises nothing, writes \<^verbatim>\<open>project_documentation.txt\<close>
  with the text report of the project data (and no other file), and prints the
  confirmation line and then the advisory line. If the file cannot be opened or the text
  cannot be encoded, the run ends with the exception of the write. The advisory is printed
  by the script, not by \<^verbatim>\<open>generate_report\<close>: called with an output mode other than
  \<^verbatim>\<open>docx\<close>, the renderer writes the text report and prints the confirmation only.
\<close>

theorem no_docx_library_text_report:
  "(scan_project L script (dirname script) tree = Inr (pd, printed) \<and> cwd_writable w \<and>
      \<not> has_surrogate (str_join [CHR 0x0A] (report_lines pd)) \<longrightarrow>
      (\<exists>w'. main L False script tree w = Inr w'
         \<and> files w' = (files w)(''project_documentation.txt'' \<mapsto>
                          TextFile (str_join [CHR 0x0A] (report_lines pd)))
         \<and> stdout w' = stdout w @ printed @
                          [''Text document generated: project_documentation.txt'', advisory]))
   \<and> (scan_project L script (dirname script) tree = Inr (pd, printed) \<and> \<not> cwd_writable w \<longrightarrow>
        main L False script tree w = Inl (OSError ''project_documentation.txt''))
   \<and> (scan_project L script (dirname script) tree = Inr (pd, printed) \<and> cwd_writable w \<and>
      has_surrogate (str_join [CHR 0x0A] (report_lines pd)) \<longrightarrow>
        main L False script tree w = Inl (UnicodeEncodeError ''project_documentation.txt''))
   \<and> (output_format \<noteq> ''docx'' \<and> list_all has_modules data \<and> cwd_writable w \<and>
      \<not> has_surrogate (str_join [CHR 0x0A] (report_lines data)) \<longrightarrow>
      (\<exists>w'. generate_report False data output_format w = Inr w'
         \<and> files w' = (files w)(''project_documentation.txt'' \<mapsto>
                          TextFile (str_join [CHR 0x0A] (report_lines data)))
         \<and> stdout w' = stdout w @ [''Text document generated: project_documentation.txt'']))"
proof -
  have run: "\<exists>w'. main L False script tree w = Inr w'
         \<and> files w' = (files w)(''project_documentation.txt'' \<mapsto>
                          TextFile (str_join [CHR 0x0A] (report_lines pd)))
         \<and> stdout w' = stdout w @ printed @
                          [''Text document generated: project_documentation.txt'', advisory]"
    if scan: "scan_project L script (dirname script) tree = Inr (pd, printed)"
      and wr: "cwd_writable w"
      and enc: "\<not> has_surrogate (str_join [CHR 0x0A] (report_lines pd))"
    using wr enc scan_project_has_modules [OF scan]
    by (simp add: main_def scan generate_report_text write_file_def)
  have closed: "main L False script tree w = Inl (OSError ''project_documentation.txt'')"
    if scan: "scan_project L script (dirname script) tree = Inr (pd, printed)"
      and wr: "\<not> cwd_writable w"
    using wr scan_project_has_modules [OF scan]
    by (simp add: main_def scan generate_report_text write_file_def)
  have surrogate: "main L False script tree w =
                     Inl (UnicodeEncodeError ''project_documentation.txt'')"
    if scan: "scan_project L script (dirname script) tree = Inr (pd, printed)"
      and wr: "cwd_writable w"
      and enc: "has_surrogate (str_join [CHR 0x0A] (report_lines pd))"
    using wr enc scan_project_has_modules [OF scan]
    by (simp add: main_def scan generate_report_text write_file_def)
  have render: "\<exists>w'. generate_report False data output_format w = Inr w'
         \<and> files w' = (files w)(''project_documentation.txt'' \<mapsto>
                          TextFile (str_join [CHR 0x0A] (report_lines data)))
         \<and> stdout w' = stdout w @ [''Text document generated: project_documentation.txt'']"
    if "output_format \<noteq> ''docx''" and "list_all has_modules data" and "cwd_writable w"
      and "\<not> has_surrogate (str_join [CHR 0x0A] (report_lines data))"
    using that by (simp add: generate_report_text write_file_def)
  show ?thesis using run closed surrogate render by blast
qed

text \<open>
  The claim as stated fails: with the library absent and the output mode \<^verbatim>\<open>docx\<close>,
  \<^verbatim>\<open>generate_report\<close> on a project with a file reads the variable \<^verbatim>\<open>doc\<close>, which
  was never assigned, and raises; on the empty project it writes the text report and
  prints the confirmation, and no advisory.
\<close>

theorem docx_requested_without_library:
  "generate_report False example_data ''docx'' example_world = Inl (UnboundLocalError ''doc'')
   \<and> map_sum id stdout (generate_report False [] ''docx'' example_world) =
       Inr [''Text document generated: project_documentation.txt'']
   \<and> advisory \<noteq> ''Text document generated: project_documentation.txt''"
  by (simp add: generate_report_docx_unavailable example_data_def write_file_def
      example_world_def advisory_def)

theorem no_docx_library_text_report_witness:
  "(\<exists>w'. main example_lib False example_script example_dir example_world = Inr w'
      \<and> stdout w' =
          [''Error parsing /proj/bad.py: invalid syntax'',
           ''Text document generated: project_documentation.txt'',
           ''Install python-docx for Word document support'']
      \<and> files w' ''project_documentation.docx'' = None)
   \<and> main example_lib False example_script example_dir (example_world\<lparr>cwd_writable := False\<rparr>) =
       Inl (OSError ''project_documentation.txt'')
   \<and> (\<exists>w'. generate_report False example_data ''txt'' example_world = Inr w'
      \<and> stdout w' = [''Text document generated: project_documentation.txt''])"
proof -
  have wr: "cwd_writable example_world" by (simp add: example_world_def)
  have nwr: "\<not> cwd_writable (example_world\<lparr>cwd_writable := False\<rparr>)" by simp
  have sc: "scan_project example_lib example_script (dirname example_script)
      example_dir = Inr (example_project, [''Error parsing /proj/bad.py: invalid syntax''])"
    by (simp only: example_dirname example_scan example_project_def)
  have n: "''txt'' \<noteq> ''docx''" by simp
  note t = no_docx_library_text_report [where L = example_lib and script = example_script
      and tree = example_dir and w = example_world and output_format = "''txt''"
      and data = example_data and pd = example_project
      and printed = "[''Error parsing /proj/bad.py: invalid syntax'']"]
  note t' = no_docx_library_text_report [where L = example_lib and script = example_script
      and tree = example_dir and w = "example_world\<lparr>cwd_writable := False\<rparr>"
      and pd = example_project
      and printed = "[''Error parsing /proj/bad.py: invalid syntax'']"]
  from t sc wr example_project_encodable obtain w1
    where m: "main example_lib False example_script example_dir example_world = Inr w1"
    and f1: "files w1 = (files example_world)(''project_documentation.txt'' \<mapsto>
                          TextFile (str_join [CHR 0x0A] (report_lines example_project)))"
    and o1: "stdout w1 = stdout example_world @ [''Error parsing /proj/bad.py: invalid syntax''] @
                          [''Text document generated: project_documentation.txt'', advisory]"
    by blast
  from t' sc nwr
  have c: "main example_lib False example_script example_dir
             (example_world\<lparr>cwd_writable := False\<rparr>) = Inl (OSError ''project_documentation.txt'')"
    by blast
  from t n example_data_modules wr example_data_encodable obtain w2
    where g: "generate_report False example_data ''txt'' example_world = Inr w2"
    and o2: "stdout w2 = stdout example_world @ [''Text document generated: project_documentation.txt'']"
    by blast
  show ?thesis
    using m f1 o1 c g o2 by (simp add: example_world_def advisory_def)
qed

end
